theory Spec2Isabelle
  imports Main
begin

section \<open>Requests, responses and the process environment\<close>

text \<open>
  The handlers are Netlify functions: each takes an event (HTTP method and body) and
  returns a status code with a body. A body is either plain text or the result of
  \<^verbatim>\<open>JSON.stringify\<close> on an object literal; \<^verbatim>\<open>JSON.stringify\<close> leaves out a key
  whose value is \<^verbatim>\<open>undefined\<close>.
\<close>

datatype jval = JBool bool | JString string

datatype payload = Text string | Json "(string \<times> jval) list"

record response =
  statusCode :: nat
  body :: payload

definition stringify :: "(string \<times> jval option) list \<Rightarrow> payload" where
  "stringify fs = Json [(k, v). (k, Some v) \<leftarrow> fs]"

definition error_body :: "string \<Rightarrow> payload" where
  "error_body msg = stringify [(''error'', Some (JString msg))]"

text \<open>
  \<^verbatim>\<open>JSON.parse(event.body || '{}')\<close> either throws or gives an object; the handlers read
  string fields of it, and a missing field reads as the empty string
  (\<^verbatim>\<open>body.email || ''\<close>). \<open>Unparsable\<close> carries the message of the exception.
\<close>

datatype parsed = Unparsable string | Fields "string \<rightharpoonup> string"

record event =
  httpMethod :: string
  event_body :: parsed

definition field :: "(string \<rightharpoonup> string) \<Rightarrow> string \<Rightarrow> string" where
  "field fs k = (case fs k of None \<Rightarrow> [] | Some v \<Rightarrow> v)"

text \<open>
  \<^verbatim>\<open>process.env\<close>: an unset variable and an empty one are both falsy, so every variable
  is a string and the empty string stands for "not set".
\<close>

record env =
  SUPABASE_URL :: string
  SUPABASE_SERVICE_ROLE_KEY :: string
  RESEND_API_KEY :: string
  SENDGRID_API_KEY :: string
  MAILGUN_API_KEY :: string
  MAILGUN_DOMAIN :: string
  FROM_EMAIL :: string

text \<open>
  \<^verbatim>\<open>.toLowerCase().trim()\<close> on the ASCII range: strings are byte strings here, letters
  A to Z are lowered, and the ASCII white space characters are trimmed at both ends.
\<close>

definition lower_char :: "char \<Rightarrow> char" where
  "lower_char c =
     (case map_of (zip ''ABCDEFGHIJKLMNOPQRSTUVWXYZ'' ''abcdefghijklmnopqrstuvwxyz'') c of
        Some l \<Rightarrow> l
      | None \<Rightarrow> c)"

definition toLowerCase :: "string \<Rightarrow> string" where
  "toLowerCase s = map lower_char s"

definition is_space :: "char \<Rightarrow> bool" where
  "is_space c = ((of_char c :: nat) \<in> {9, 10, 11, 12, 13, 32})"

definition trim :: "string \<Rightarrow> string" where
  "trim s = rev (dropWhile is_space (rev (dropWhile is_space s)))"

section \<open>The store and the network\<close>

text \<open>
  The identity and code store is an external REST service (Supabase). Its tables are
  lists in insertion order. \<open>expires_at\<close> is the time in milliseconds since the epoch
  (the handlers write it with \<^verbatim>\<open>toISOString\<close> and read it back with
  \<^verbatim>\<open>new Date(...).getTime()\<close>).
\<close>

record code_row =
  email :: string
  code :: string
  expires_at :: int
  used :: bool

record user =
  user_id :: nat
  user_email :: string
  user_password :: string

record profile =
  profile_id :: nat
  plan :: string
  trial_end_at :: int

record world =
  email_codes :: "code_row list"
  users :: "user list"
  profiles :: "profile list"

text \<open>
  A call to the store can go wrong in two ways: \<^verbatim>\<open>fetch\<close> rejects (the service cannot
  be reached), or the service answers with a status outside 200 to 299 and a text.
  \<open>net\<close> says, for one invocation of a handler, which of its calls go wrong, and
  what each email provider answers. A handler calls a provider at most once, and the
  message it sends (recipient, subject, text) has no part in what the handler does next,
  so the answer is a function of the provider alone.

  The verifier reads the answer of its users lookup with \<^verbatim>\<open>listRes.json()\<close> without
  a look at \<^verbatim>\<open>listRes.ok\<close>. \<open>users_json\<close> is what that call gives when the lookup is
  refused: it throws when the body is not JSON, and otherwise it is the list under the
  key \<^verbatim>\<open>users\<close> of the body, empty when the key is missing.
\<close>

datatype fault = Unreachable | Refused string

datatype 'a awaited = Rejected string | Resolved 'a

record reply =
  status :: nat
  text_of :: "string awaited"

datatype provider = Resend | SendGrid | Mailgun

record net =
  users_get :: "fault option"
  users_json :: "user list awaited"
  users_post :: "fault option"
  codes_get :: "fault option"
  codes_post :: "fault option"
  codes_patch :: "fault option"
  profiles_post :: "fault option"
  mail :: "provider \<Rightarrow> reply awaited"

definition ok :: "reply \<Rightarrow> bool" where
  "ok r = (200 \<le> status r \<and> status r < 300)"

subsection \<open>What the store does with each request\<close>

text \<open>
  \<^verbatim>\<open>GET /rest/v1/email_codes?email=eq.E&code=eq.C&used=eq.false\<close>. The request asks
  for no order, and the rows come back in table order.
\<close>

definition unused_matching :: "string \<Rightarrow> string \<Rightarrow> world \<Rightarrow> code_row list" where
  "unused_matching e c w =
     filter (\<lambda>r. email r = e \<and> code r = c \<and> \<not> used r) (email_codes w)"

definition GET_codes :: "net \<Rightarrow> string \<Rightarrow> string \<Rightarrow> world \<Rightarrow> fault + code_row list" where
  "GET_codes n e c w =
     (case codes_get n of
        Some f \<Rightarrow> Inl f
      | None \<Rightarrow> Inr (unused_matching e c w))"

text \<open>\<^verbatim>\<open>GET /rest/v1/email_codes?email=eq.E&used=eq.false\<close>\<close>

definition GET_unused :: "net \<Rightarrow> string \<Rightarrow> world \<Rightarrow> fault + code_row list" where
  "GET_unused n e w =
     (case codes_get n of
        Some f \<Rightarrow> Inl f
      | None \<Rightarrow> Inr (filter (\<lambda>r. email r = e \<and> \<not> used r) (email_codes w)))"

text \<open>\<^verbatim>\<open>PATCH /rest/v1/email_codes?email=eq.E&code=eq.C\<close> with body \<^verbatim>\<open>{used: true}\<close>\<close>

definition mark_row :: "string \<Rightarrow> string \<Rightarrow> code_row \<Rightarrow> code_row" where
  "mark_row e c r = (if email r = e \<and> code r = c then r\<lparr>used := True\<rparr> else r)"

definition PATCH_codes :: "net \<Rightarrow> string \<Rightarrow> string \<Rightarrow> world \<Rightarrow> fault + world" where
  "PATCH_codes n e c w =
     (case codes_patch n of
        Some f \<Rightarrow> Inl f
      | None \<Rightarrow> Inr (w\<lparr>email_codes := map (mark_row e c) (email_codes w)\<rparr>))"

text \<open>\<^verbatim>\<open>POST /rest/v1/email_codes\<close> with one row\<close>

definition POST_codes :: "net \<Rightarrow> code_row \<Rightarrow> world \<Rightarrow> fault + world" where
  "POST_codes n r w =
     (case codes_post n of
        Some f \<Rightarrow> Inl f
      | None \<Rightarrow> Inr (w\<lparr>email_codes := email_codes w @ [r]\<rparr>))"

text \<open>\<^verbatim>\<open>GET /auth/v1/admin/users?email=E\<close>: the accounts registered under that email\<close>

definition GET_users :: "net \<Rightarrow> string \<Rightarrow> world \<Rightarrow> fault + user list" where
  "GET_users n e w =
     (case users_get n of
        Some f \<Rightarrow> Inl f
      | None \<Rightarrow> Inr (filter (\<lambda>u. user_email u = e) (users w)))"

text \<open>
  \<^verbatim>\<open>POST /auth/v1/admin/users\<close>: creates the account under a fresh id, or refuses with
  a conflict when the email is registered already.
\<close>

definition conflict_text :: string where
  "conflict_text = ''A user with this email address has already been registered''"

definition fresh_id :: "user list \<Rightarrow> nat" where
  "fresh_id us = Suc (foldr max (map user_id us) 0)"

definition POST_users :: "net \<Rightarrow> string \<Rightarrow> string \<Rightarrow> world \<Rightarrow> fault + nat \<times> world" where
  "POST_users n e p w =
     (case users_post n of
        Some f \<Rightarrow> Inl f
      | None \<Rightarrow>
          if filter (\<lambda>u. user_email u = e) (users w) \<noteq> [] then Inl (Refused conflict_text)
          else Inr (fresh_id (users w),
                 w\<lparr>users := users w @
                     [\<lparr>user_id = fresh_id (users w), user_email = e, user_password = p\<rparr>]\<rparr>))"

text \<open>
  \<^verbatim>\<open>POST /rest/v1/profiles\<close> with \<^verbatim>\<open>Prefer: resolution=merge-duplicates\<close>: the row with
  that id takes the new plan and trial end, or the row is added.
\<close>

definition merge_profile :: "profile \<Rightarrow> profile \<Rightarrow> profile" where
  "merge_profile p q =
     (if profile_id q = profile_id p then q\<lparr>plan := plan p, trial_end_at := trial_end_at p\<rparr> else q)"

definition POST_profiles :: "net \<Rightarrow> profile \<Rightarrow> world \<Rightarrow> fault + world" where
  "POST_profiles n p w =
     (case profiles_post n of
        Some f \<Rightarrow> Inl f
      | None \<Rightarrow>
          if filter (\<lambda>q. profile_id q = profile_id p) (profiles w) \<noteq> []
          then Inr (w\<lparr>profiles := map (merge_profile p) (profiles w)\<rparr>)
          else Inr (w\<lparr>profiles := profiles w @ [p]\<rparr>))"

section \<open>verify-code\<close>

definition method_not_allowed :: response where
  "method_not_allowed = \<lparr>statusCode = 405, body = Text ''Method Not Allowed''\<rparr>"

definition unexpected :: response where
  "unexpected = \<lparr>statusCode = 500, body = error_body ''An unexpected error occurred''\<rparr>"

definition success :: response where
  "success = \<lparr>statusCode = 200, body = stringify [(''success'', Some (JBool True))]\<rparr>"

definition invalid_code :: response where
  "invalid_code =
     \<lparr>statusCode = 400, body = error_body ''Invalid or expired verification code''\<rparr>"

definition expired_code :: response where
  "expired_code = \<lparr>statusCode = 400, body = error_body ''Verification code has expired''\<rparr>"

text \<open>Lines 134 to 160: the profile upsert, whose response is not inspected.\<close>

definition upsert_profile :: "net \<Rightarrow> int \<Rightarrow> nat \<Rightarrow> string \<Rightarrow> world \<Rightarrow> response \<times> world" where
  "upsert_profile n now userId pl w =
     (let trialEnd = now + 14 * 24 * 60 * 60 * 1000 in
      case POST_profiles n \<lparr>profile_id = userId, plan = pl, trial_end_at = trialEnd\<rparr> w of
        Inl Unreachable \<Rightarrow> (unexpected, w)
      | Inl (Refused t) \<Rightarrow> (success, w)
      | Inr w' \<Rightarrow> (success, w'))"

text \<open>
  Lines 97 to 133: create the user; when that is refused, look the user up and go on
  with the first id in the answer, or answer 400 with the text of the refusal. The
  answer of the lookup is parsed whatever its status (lines 119 and 120).
\<close>

definition create_failed :: "string \<Rightarrow> response" where
  "create_failed tex =
     \<lparr>statusCode = 400, body = error_body (''Failed to create user: '' @ tex)\<rparr>"

text \<open>\<open>None\<close>: the fetch or the parse throws.\<close>

definition listed_users :: "net \<Rightarrow> string \<Rightarrow> world \<Rightarrow> user list option" where
  "listed_users n e w =
     (case GET_users n e w of
        Inl Unreachable \<Rightarrow> None
      | Inl (Refused t) \<Rightarrow>
          (case users_json n of Rejected m \<Rightarrow> None | Resolved us \<Rightarrow> Some us)
      | Inr us \<Rightarrow> Some us)"

definition create_user ::
  "net \<Rightarrow> int \<Rightarrow> string \<Rightarrow> string \<Rightarrow> string \<Rightarrow> world \<Rightarrow> response \<times> world" where
  "create_user n now e password pl w =
     (case POST_users n e password w of
        Inl Unreachable \<Rightarrow> (unexpected, w)
      | Inl (Refused tex) \<Rightarrow>
          (case listed_users n e w of
             None \<Rightarrow> (unexpected, w)
           | Some us \<Rightarrow>
               (case us of
                  u # _ \<Rightarrow> upsert_profile n now (user_id u) pl w
                | [] \<Rightarrow> (create_failed tex, w)))
      | Inr (userId, w') \<Rightarrow> upsert_profile n now userId pl w')"

text \<open>Lines 75 to 96: the update that marks the code as used.\<close>

definition mark_used ::
  "net \<Rightarrow> int \<Rightarrow> string \<Rightarrow> string \<Rightarrow> string \<Rightarrow> string \<Rightarrow> world \<Rightarrow> response \<times> world" where
  "mark_used n now e c password pl w =
     (case PATCH_codes n e c w of
        Inl Unreachable \<Rightarrow> (unexpected, w)
      | Inl (Refused t2) \<Rightarrow>
          (\<lparr>statusCode = 500, body = error_body (''Failed to mark code as used: '' @ t2)\<rparr>, w)
      | Inr w' \<Rightarrow> create_user n now e password pl w')"

text \<open>Lines 40 to 74: fetch the matching rows and check the expiry of the first.\<close>

definition check_code ::
  "net \<Rightarrow> int \<Rightarrow> string \<Rightarrow> string \<Rightarrow> string \<Rightarrow> string \<Rightarrow> world \<Rightarrow> response \<times> world" where
  "check_code n now e c password pl w =
     (case GET_codes n e c w of
        Inl Unreachable \<Rightarrow> (unexpected, w)
      | Inl (Refused t) \<Rightarrow>
          (\<lparr>statusCode = 500, body = error_body (''Failed to verify code: '' @ t)\<rparr>, w)
      | Inr codes \<Rightarrow>
          (case codes of
             [] \<Rightarrow> (invalid_code, w)
           | codeRow # _ \<Rightarrow>
               if expires_at codeRow < now then (expired_code, w)
               else mark_used n now e c password pl w))"

text \<open>
  The handler of \<^verbatim>\<open>netlify/functions/verify-code.js\<close>. \<open>now\<close> is the value of
  \<^verbatim>\<open>Date.now()\<close> at line 67.
\<close>

definition verify_code :: "env \<Rightarrow> net \<Rightarrow> int \<Rightarrow> event \<Rightarrow> world \<Rightarrow> response \<times> world" where
  "verify_code ev n now e w =
     (if httpMethod e \<noteq> ''POST'' then (method_not_allowed, w)
      else case event_body e of
        Unparsable m \<Rightarrow> (unexpected, w)
      | Fields fs \<Rightarrow>
          (let em = trim (toLowerCase (field fs ''email''));
               c = trim (field fs ''code'');
               password = field fs ''password'';
               pl = (if field fs ''plan'' = [] then ''basic'' else field fs ''plan'')
           in if em = [] \<or> c = [] \<or> password = [] then
                (\<lparr>statusCode = 400,
                  body = error_body ''Email, code and password are required''\<rparr>, w)
              else if SUPABASE_URL ev = [] \<or> SUPABASE_SERVICE_ROLE_KEY ev = [] then
                (\<lparr>statusCode = 500,
                  body = error_body ''Supabase configuration is missing''\<rparr>, w)
              else check_code n now em c password pl w))"

section \<open>generate-code\<close>

text \<open>
  Both variants of the handler end with one \<^verbatim>\<open>{ statusCode, body }\<close>; the model returns
  with it the store after the call and the email providers that were called, in the
  order of the calls.
\<close>

text \<open>\<^verbatim>\<open>Number.prototype.toString\<close> on a natural number: its decimal digits.\<close>

definition digit :: "nat \<Rightarrow> char" where
  "digit k = ''0123456789'' ! k"

fun toString :: "nat \<Rightarrow> string" where
  "toString k = (if k < 10 then [digit k] else toString (k div 10) @ [digit (k mod 10)])"

declare toString.simps [simp del]

subsection \<open>The variant with the cooldown and three providers\<close>

text \<open>
  \<open>note_msg\<close> and \<open>emailSent\<close> are the variables \<^verbatim>\<open>note\<close> and \<^verbatim>\<open>emailSent\<close>
  that the helpers assign (lines 224 and 225). \<open>attempted\<close> logs the calls to the providers, and \<open>thrown\<close> holds the
  exception of a rejected \<^verbatim>\<open>fetch\<close>, which nothing catches before the handler's own
  \<^verbatim>\<open>catch\<close>.
\<close>

record dispatch =
  note_msg :: "string option"
  emailSent :: bool
  attempted :: "provider list"
  thrown :: "string option"

text \<open>\<^verbatim>\<open>undefined\<close> and the empty string are falsy.\<close>

definition truthy :: "string option \<Rightarrow> bool" where
  "truthy s = (case s of None \<Rightarrow> False | Some t \<Rightarrow> t \<noteq> [])"

text \<open>\<^verbatim>\<open>note ? `${note} | ${msg}` : msg\<close>\<close>

definition add_note :: "string option \<Rightarrow> string \<Rightarrow> string option" where
  "add_note nt msg =
     (case nt of
        None \<Rightarrow> Some msg
      | Some s \<Rightarrow> if s \<noteq> [] then Some (s @ '' | '' @ msg) else Some msg)"

definition provider_name :: "provider \<Rightarrow> string" where
  "provider_name p = (case p of Resend \<Rightarrow> ''Resend'' | SendGrid \<Rightarrow> ''SendGrid'' | Mailgun \<Rightarrow> ''Mailgun'')"

text \<open>
  The three helpers (lines 227 to 314) differ in the request they build and in the
  name they write into the note; \<^verbatim>\<open>res.ok\<close> and the test on \<^verbatim>\<open>res.status\<close> are the
  same condition.
\<close>

definition send_via :: "provider \<Rightarrow> net \<Rightarrow> dispatch \<Rightarrow> dispatch" where
  "send_via p n d =
     (let d' = d\<lparr>attempted := attempted d @ [p]\<rparr> in
      case mail n p of
        Rejected m \<Rightarrow> d'\<lparr>thrown := Some m\<rparr>
      | Resolved res \<Rightarrow>
          if ok res then d'\<lparr>emailSent := True\<rparr>
          else (case text_of res of
                  Resolved t \<Rightarrow>
                    d'\<lparr>note_msg := add_note (note_msg d) (provider_name p @ '' error: '' @ t)\<rparr>
                | Rejected m \<Rightarrow>
                    d'\<lparr>note_msg := add_note (note_msg d) (provider_name p @ '' failed'')\<rparr>))"

definition sendViaResend :: "net \<Rightarrow> dispatch \<Rightarrow> dispatch" where
  "sendViaResend = send_via Resend"

definition sendViaSendGrid :: "net \<Rightarrow> dispatch \<Rightarrow> dispatch" where
  "sendViaSendGrid = send_via SendGrid"

definition sendViaMailgun :: "net \<Rightarrow> dispatch \<Rightarrow> dispatch" where
  "sendViaMailgun = send_via Mailgun"

text \<open>Lines 316 to 332. A step after an exception does not run.\<close>

definition send_code :: "env \<Rightarrow> net \<Rightarrow> dispatch" where
  "send_code ev n =
     (let d0 = \<lparr>note_msg = None, emailSent = False, attempted = [], thrown = None\<rparr> in
      if FROM_EMAIL ev \<noteq> [] then
        (let d1 = (if RESEND_API_KEY ev \<noteq> [] then sendViaResend n d0 else d0);
             d2 = (if thrown d1 = None \<and> \<not> emailSent d1 \<and> SENDGRID_API_KEY ev \<noteq> []
                   then sendViaSendGrid n d1 else d1);
             d3 = (if thrown d2 = None \<and> \<not> emailSent d2 \<and> MAILGUN_API_KEY ev \<noteq> []
                      \<and> MAILGUN_DOMAIN ev \<noteq> []
                   then sendViaMailgun n d2 else d2)
         in if thrown d3 = None \<and> \<not> emailSent d3 \<and> \<not> truthy (note_msg d3)
            then d3\<lparr>note_msg := Some ''No email provider configured or all providers failed''\<rparr>
            else d3)
      else d0\<lparr>note_msg := Some ''FROM_EMAIL is not configured''\<rparr>)"

text \<open>Lines 334 to 337, or the handler's \<^verbatim>\<open>catch\<close> when a helper has thrown.\<close>

definition answer_002 :: "env \<Rightarrow> net \<Rightarrow> string \<Rightarrow> response \<times> provider list" where
  "answer_002 ev n c =
     (let d = send_code ev n in
      if thrown d \<noteq> None then (unexpected, attempted d)
      else (\<lparr>statusCode = 200,
             body = stringify [(''success'', Some (JBool True)),
                               (''code'', Some (JString c)),
                               (''note'', map_option JString (note_msg d))]\<rparr>,
            attempted d))"

text \<open>Lines 189 to 216: make the code and store it; then send it and answer.\<close>

definition issue_002 ::
  "env \<Rightarrow> net \<Rightarrow> int \<Rightarrow> nat \<Rightarrow> string \<Rightarrow> world \<Rightarrow> response \<times> world \<times> provider list" where
  "issue_002 ev n now rnd em w =
     (let c = toString rnd;
          expiresAt = now + 60 * 60 * 1000
      in case POST_codes n \<lparr>email = em, code = c, expires_at = expiresAt, used = False\<rparr> w of
           Inl Unreachable \<Rightarrow> (unexpected, w, [])
         | Inl (Refused t) \<Rightarrow>
             (\<lparr>statusCode = 500,
               body = error_body (''Failed to save verification code: '' @ t)\<rparr>, w, [])
         | Inr w' \<Rightarrow> (fst (answer_002 ev n c), w', snd (answer_002 ev n c)))"

text \<open>Lines 154 to 188: no new code while an unused, unexpired one exists.\<close>

definition already_sent :: response where
  "already_sent =
     \<lparr>statusCode = 400,
      body = error_body
        (''A verification code has already been sent. '' @
         ''Please check your email or wait until it expires.'')\<rparr>"

definition cooldown ::
  "env \<Rightarrow> net \<Rightarrow> int \<Rightarrow> nat \<Rightarrow> string \<Rightarrow> world \<Rightarrow> response \<times> world \<times> provider list" where
  "cooldown ev n now rnd em w =
     (case GET_unused n em w of
        Inl Unreachable \<Rightarrow> (unexpected, w, [])
      | Inl (Refused err) \<Rightarrow>
          (\<lparr>statusCode = 500, body = error_body (''Failed to query codes: '' @ err)\<rparr>, w, [])
      | Inr existingCodes \<Rightarrow>
          if list_ex (\<lambda>row. \<not> used row \<and> expires_at row > now) existingCodes then
            (already_sent, w, [])
          else issue_002 ev n now rnd em w)"

definition already_registered :: response where
  "already_registered =
     \<lparr>statusCode = 400, body = error_body ''This email is already registered''\<rparr>"

text \<open>
  The handler of the variant in \<^verbatim>\<open>part_002\<close>. \<open>now\<close> is \<^verbatim>\<open>Date.now()\<close> at line 174
  and \<open>rnd\<close> the value of \<^verbatim>\<open>Math.floor(100000 + Math.random() * 900000)\<close>.
\<close>

definition generate_code_002 ::
  "env \<Rightarrow> net \<Rightarrow> int \<Rightarrow> nat \<Rightarrow> event \<Rightarrow> world \<Rightarrow> response \<times> world \<times> provider list" where
  "generate_code_002 ev n now rnd e w =
     (if httpMethod e \<noteq> ''POST'' then (method_not_allowed, w, [])
      else case event_body e of
        Unparsable m \<Rightarrow> (unexpected, w, [])
      | Fields fs \<Rightarrow>
          (let em = trim (toLowerCase (field fs ''email'')) in
           if em = [] then
             (\<lparr>statusCode = 400, body = error_body ''Email is required''\<rparr>, w, [])
           else if SUPABASE_URL ev = [] \<or> SUPABASE_SERVICE_ROLE_KEY ev = [] then
             (\<lparr>statusCode = 500,
               body = error_body ''Supabase configuration is missing''\<rparr>, w, [])
           else case GET_users n em w of
                  Inl Unreachable \<Rightarrow> (unexpected, w, [])
                | Inl (Refused errText) \<Rightarrow>
                    (\<lparr>statusCode = 500,
                      body = error_body (''Failed to query users: '' @ errText)\<rparr>, w, [])
                | Inr us \<Rightarrow>
                    if us \<noteq> [] then (already_registered, w, [])
                    else cooldown ev n now rnd em w))"

subsection \<open>The variant without the cooldown\<close>

text \<open>
  Reading a variable looks its name up in the bindings in scope and throws a
  ReferenceError when there is none.
\<close>

datatype jsval = Num int | Str string | Obj

definition resolve :: "(string \<times> jsval) list \<Rightarrow> string \<Rightarrow> string + jsval" where
  "resolve scope x =
     (case map_of scope x of None \<Rightarrow> Inl (x @ '' is not defined'') | Some v \<Rightarrow> Inr v)"

text \<open>
  The bindings initialised when line 175 of \<^verbatim>\<open>part_001\<close> runs: the parameter and the
  \<^verbatim>\<open>const\<close> declarations of lines 127 to 174 (\<^verbatim>\<open>errText\<close> is local to its block). The
  module declares nothing else, and the handler never assigns to an undeclared name.
\<close>

definition scope_001 :: "env \<Rightarrow> string \<Rightarrow> string \<Rightarrow> (string \<times> jsval) list" where
  "scope_001 ev em c =
     [(''event'', Obj), (''body'', Obj), (''email'', Str em),
      (''supabaseUrl'', Str (SUPABASE_URL ev)),
      (''serviceKey'', Str (SUPABASE_SERVICE_ROLE_KEY ev)),
      (''userRes'', Obj), (''userData'', Obj), (''code'', Str c)]"

text \<open>Lines 201 to 233: Resend only, and a failure to send is an error.\<close>

definition send_001 ::
  "env \<Rightarrow> net \<Rightarrow> world \<Rightarrow> response \<times> world \<times> provider list" where
  "send_001 ev n w =
     (if RESEND_API_KEY ev = [] \<or> FROM_EMAIL ev = [] then
        (\<lparr>statusCode = 500, body = error_body ''Email configuration is missing''\<rparr>, w, [])
      else case mail n Resend of
             Rejected m \<Rightarrow> (unexpected, w, [Resend])
           | Resolved emailRes \<Rightarrow>
               if \<not> ok emailRes then
                 (case text_of emailRes of
                    Rejected m \<Rightarrow> (unexpected, w, [Resend])
                  | Resolved eText \<Rightarrow>
                      (\<lparr>statusCode = 500,
                        body = error_body (''Failed to send verification email: '' @ eText)\<rparr>,
                       w, [Resend]))
               else (success, w, [Resend]))"

text \<open>Lines 176 to 200: store the code.\<close>

definition insert_001 ::
  "env \<Rightarrow> net \<Rightarrow> int \<Rightarrow> string \<Rightarrow> string \<Rightarrow> world \<Rightarrow> response \<times> world \<times> provider list" where
  "insert_001 ev n expiresAt em c w =
     (case POST_codes n \<lparr>email = em, code = c, expires_at = expiresAt, used = False\<rparr> w of
        Inl Unreachable \<Rightarrow> (unexpected, w, [])
      | Inl (Refused t) \<Rightarrow>
          (\<lparr>statusCode = 500,
            body = error_body (''Failed to save verification code: '' @ t)\<rparr>, w, [])
      | Inr w' \<Rightarrow> send_001 ev n w')"

text \<open>
  Lines 173 to 175. \<^verbatim>\<open>new Date(now + 60 * 60 * 1000).toISOString()\<close> reads \<^verbatim>\<open>now\<close>; with
  a number it is the expiry, with anything else the date is invalid and
  \<^verbatim>\<open>toISOString\<close> throws.
\<close>

definition issue_001 ::
  "env \<Rightarrow> net \<Rightarrow> nat \<Rightarrow> string \<Rightarrow> world \<Rightarrow> response \<times> world \<times> provider list" where
  "issue_001 ev n rnd em w =
     (let c = toString rnd in
      case resolve (scope_001 ev em c) ''now'' of
        Inl m \<Rightarrow> (unexpected, w, [])
      | Inr (Num now) \<Rightarrow> insert_001 ev n (now + 60 * 60 * 1000) em c w
      | Inr v \<Rightarrow> (unexpected, w, []))"

text \<open>The handler of the variant in \<^verbatim>\<open>part_001\<close>, which never calls \<^verbatim>\<open>Date.now()\<close>.\<close>

definition generate_code_001 ::
  "env \<Rightarrow> net \<Rightarrow> nat \<Rightarrow> event \<Rightarrow> world \<Rightarrow> response \<times> world \<times> provider list" where
  "generate_code_001 ev n rnd e w =
     (if httpMethod e \<noteq> ''POST'' then (method_not_allowed, w, [])
      else case event_body e of
        Unparsable m \<Rightarrow> (unexpected, w, [])
      | Fields fs \<Rightarrow>
          (let em = trim (toLowerCase (field fs ''email'')) in
           if em = [] then
             (\<lparr>statusCode = 400, body = error_body ''Email is required''\<rparr>, w, [])
           else if SUPABASE_URL ev = [] \<or> SUPABASE_SERVICE_ROLE_KEY ev = [] then
             (\<lparr>statusCode = 500,
               body = error_body ''Supabase configuration is missing''\<rparr>, w, [])
           else case GET_users n em w of
                  Inl Unreachable \<Rightarrow> (unexpected, w, [])
                | Inl (Refused errText) \<Rightarrow>
                    (\<lparr>statusCode = 500,
                      body = error_body (''Failed to query users: '' @ errText)\<rparr>, w, [])
                | Inr us \<Rightarrow>
                    if us \<noteq> [] then (already_registered, w, [])
                    else issue_001 ev n rnd em w))"

section \<open>feedback\<close>

definition server_error :: "string \<Rightarrow> response" where
  "server_error m = \<lparr>statusCode = 500, body = Text (''Server error: '' @ m)\<rparr>"

text \<open>
  One provider block of the handler (lines 28 to 48, 52 to 73, 78 to 98): send, and
  return whatever the outcome is.
\<close>

definition relay_via :: "provider \<Rightarrow> net \<Rightarrow> response \<times> provider list" where
  "relay_via p n =
     (case mail n p of
        Rejected m \<Rightarrow> (server_error m, [p])
      | Resolved resp \<Rightarrow>
          if \<not> ok resp then
            (case text_of resp of
               Rejected m \<Rightarrow> (server_error m, [p])
             | Resolved t \<Rightarrow>
                 (\<lparr>statusCode = 500, body = Text (provider_name p @ '' error: '' @ t)\<rparr>, [p]))
          else (\<lparr>statusCode = 200, body = Text (''Sent via '' @ provider_name p)\<rparr>, [p]))"

text \<open>The handler of \<^verbatim>\<open>netlify/functions/feedback.js\<close> (first file of \<^verbatim>\<open>part_001\<close>).\<close>

definition feedback :: "env \<Rightarrow> net \<Rightarrow> event \<Rightarrow> response \<times> provider list" where
  "feedback ev n e =
     (if httpMethod e \<noteq> ''POST'' then (method_not_allowed, [])
      else case event_body e of
        Unparsable m \<Rightarrow> (server_error m, [])
      | Fields fs \<Rightarrow>
          (let to = field fs ''to'';
               txt = take 20000 (field fs ''body'')
           in if to = [] \<or> txt = [] then
                (\<lparr>statusCode = 400,
                  body = Text (''Missing '' @ [CHR 0x27] @ ''to'' @ [CHR 0x27] @ '' or '' @
                               [CHR 0x27] @ ''body'' @ [CHR 0x27] @ ''.'')\<rparr>, [])
              else if RESEND_API_KEY ev \<noteq> [] then relay_via Resend n
              else if SENDGRID_API_KEY ev \<noteq> [] then relay_via SendGrid n
              else if MAILGUN_API_KEY ev \<noteq> [] \<and> MAILGUN_DOMAIN ev \<noteq> [] then
                relay_via Mailgun n
              else
                (\<lparr>statusCode = 500,
                  body = Text (''No email provider configured. Set RESEND_API_KEY or '' @
                               ''SENDGRID_API_KEY or MAILGUN_API_KEY env var in Netlify.'')\<rparr>,
                 [])))"

section \<open>Reading a request, and sequences of calls\<close>

text \<open>The values the handlers compute from the body before any call to the store.\<close>

definition req_email :: "event \<Rightarrow> string" where
  "req_email e =
     (case event_body e of
        Unparsable m \<Rightarrow> []
      | Fields fs \<Rightarrow> trim (toLowerCase (field fs ''email'')))"

definition req_code :: "event \<Rightarrow> string" where
  "req_code e = (case event_body e of Unparsable m \<Rightarrow> [] | Fields fs \<Rightarrow> trim (field fs ''code''))"

definition req_password :: "event \<Rightarrow> string" where
  "req_password e = (case event_body e of Unparsable m \<Rightarrow> [] | Fields fs \<Rightarrow> field fs ''password'')"

definition req_plan :: "event \<Rightarrow> string" where
  "req_plan e =
     (case event_body e of
        Unparsable m \<Rightarrow> []
      | Fields fs \<Rightarrow> if field fs ''plan'' = [] then ''basic'' else field fs ''plan'')"

definition parsable :: "event \<Rightarrow> bool" where
  "parsable e = (case event_body e of Unparsable m \<Rightarrow> False | Fields fs \<Rightarrow> True)"

text \<open>
  A request gets as far as the first call to the store when it is a POST with a
  parsable body and the required fields, and the store is configured.
\<close>

definition store_configured :: "env \<Rightarrow> bool" where
  "store_configured ev = (SUPABASE_URL ev \<noteq> [] \<and> SUPABASE_SERVICE_ROLE_KEY ev \<noteq> [])"

definition verify_ready :: "env \<Rightarrow> event \<Rightarrow> bool" where
  "verify_ready ev e =
     (httpMethod e = ''POST'' \<and> parsable e \<and> req_email e \<noteq> [] \<and> req_code e \<noteq> []
      \<and> req_password e \<noteq> [] \<and> store_configured ev)"

definition issue_ready :: "env \<Rightarrow> event \<Rightarrow> bool" where
  "issue_ready ev e =
     (httpMethod e = ''POST'' \<and> parsable e \<and> req_email e \<noteq> [] \<and> store_configured ev)"

definition has_account :: "string \<Rightarrow> world \<Rightarrow> bool" where
  "has_account em w = (filter (\<lambda>u. user_email u = em) (users w) \<noteq> [])"








section \<open>Providers: configured, attempted, failed\<close>

text \<open>
  A provider is configured when its credentials are set. The issuer sends nothing
  unless \<^verbatim>\<open>FROM_EMAIL\<close> is set as well; the feedback relay has a default sender.
\<close>

definition configured :: "env \<Rightarrow> provider \<Rightarrow> bool" where
  "configured ev p =
     (case p of
        Resend \<Rightarrow> RESEND_API_KEY ev \<noteq> []
      | SendGrid \<Rightarrow> SENDGRID_API_KEY ev \<noteq> []
      | Mailgun \<Rightarrow> MAILGUN_API_KEY ev \<noteq> [] \<and> MAILGUN_DOMAIN ev \<noteq> [])"

definition configured_providers :: "env \<Rightarrow> provider list" where
  "configured_providers ev = filter (configured ev) [Resend, SendGrid, Mailgun]"

definition issuer_providers :: "env \<Rightarrow> provider list" where
  "issuer_providers ev = (if FROM_EMAIL ev = [] then [] else configured_providers ev)"

text \<open>What a provider does with a message: report success, answer with a failure, or not answer.\<close>

definition succeeds :: "net \<Rightarrow> provider \<Rightarrow> bool" where
  "succeeds n p = (case mail n p of Rejected m \<Rightarrow> False | Resolved res \<Rightarrow> ok res)"


definition answers :: "net \<Rightarrow> provider \<Rightarrow> bool" where
  "answers n p = (case mail n p of Rejected m \<Rightarrow> False | Resolved res \<Rightarrow> True)"

text \<open>
  Following the spec's words: "attempt delivery via each configured provider in a fixed
  priority order until one reports success".
\<close>

fun until_success :: "net \<Rightarrow> provider list \<Rightarrow> provider list" where
  "until_success n [] = []"
| "until_success n (p # ps) = p # (if succeeds n p then [] else until_success n ps)"

text \<open>
  Following the spec's words: "provider-specific error text concatenated in order of
  attempt". The text of one failed attempt names the provider and carries the body of
  its answer when that can be read.
\<close>

definition failure_reason :: "net \<Rightarrow> provider \<Rightarrow> string" where
  "failure_reason n p =
     (case mail n p of
        Rejected m \<Rightarrow> []
      | Resolved res \<Rightarrow>
          (case text_of res of
             Resolved t \<Rightarrow> provider_name p @ '' error: '' @ t
           | Rejected m \<Rightarrow> provider_name p @ '' failed''))"

fun joined :: "string list \<Rightarrow> string" where
  "joined [] = []"
| "joined [x] = x"
| "joined (x # y # ys) = x @ '' | '' @ joined (y # ys)"

text \<open>
  One guarded step of lines 318 to 326, for any provider: the helper runs when the
  provider is configured, nothing was thrown and no email was sent yet.
\<close>

definition attempt_next :: "env \<Rightarrow> net \<Rightarrow> provider \<Rightarrow> dispatch \<Rightarrow> dispatch" where
  "attempt_next ev n p d =
     (if thrown d = None \<and> \<not> emailSent d \<and> configured ev p then send_via p n d else d)"

definition no_provider_note :: string where
  "no_provider_note = ''No email provider configured or all providers failed''"



text \<open>The providers whose attempt failed, among those the issuer tried.\<close>

definition failed_attempts :: "env \<Rightarrow> net \<Rightarrow> provider list" where
  "failed_attempts ev n =
     filter (\<lambda>p. \<not> succeeds n p) (until_success n (issuer_providers ev))"

text \<open>The row a successful issuance adds to the table.\<close>

definition issued :: "string \<Rightarrow> nat \<Rightarrow> int \<Rightarrow> world \<Rightarrow> world" where
  "issued em rnd now w =
     w\<lparr>email_codes := email_codes w @
        [\<lparr>email = em, code = toString rnd, expires_at = now + 60 * 60 * 1000, used = False\<rparr>]\<rparr>"

definition feedback_ready :: "event \<Rightarrow> bool" where
  "feedback_ready e =
     (httpMethod e = ''POST'' \<and>
      (case event_body e of
         Unparsable m \<Rightarrow> False
       | Fields fs \<Rightarrow> field fs ''to'' \<noteq> [] \<and> take 20000 (field fs ''body'') \<noteq> []))"


section \<open>Sample inputs\<close>

definition sample_env :: env where
  "sample_env =
     \<lparr>SUPABASE_URL = ''https://db.example'', SUPABASE_SERVICE_ROLE_KEY = ''service-key'',
      RESEND_API_KEY = ''re_key'', SENDGRID_API_KEY = ''sg_key'', MAILGUN_API_KEY = [],
      MAILGUN_DOMAIN = [], FROM_EMAIL = ''no-reply@lhystlog.com''\<rparr>"

definition no_sender_env :: env where
  "no_sender_env = sample_env\<lparr>FROM_EMAIL := []\<rparr>"

definition no_mail_env :: env where
  "no_mail_env = sample_env\<lparr>RESEND_API_KEY := [], SENDGRID_API_KEY := []\<rparr>"

text \<open>The store answers every call; every email provider answers 500.\<close>

definition sample_net :: net where
  "sample_net =
     \<lparr>users_get = None, users_json = Resolved [], users_post = None, codes_get = None,
      codes_post = None,
      codes_patch = None, profiles_post = None,
      mail = (\<lambda>p. Resolved \<lparr>status = 500, text_of = Resolved ''boom''\<rparr>)\<rparr>"



definition verify_event :: event where
  "verify_event =
     \<lparr>httpMethod = ''POST'',
      event_body = Fields [''email'' \<mapsto> ''A@Example.com '', ''code'' \<mapsto> ''482913'',
                           ''password'' \<mapsto> ''x'', ''plan'' \<mapsto> ''pro'']\<rparr>"

definition issue_event :: event where
  "issue_event = \<lparr>httpMethod = ''POST'', event_body = Fields [''email'' \<mapsto> ''A@Example.com '']\<rparr>"

definition code_at :: "int \<Rightarrow> bool \<Rightarrow> code_row" where
  "code_at t u = \<lparr>email = ''a@example.com'', code = ''482913'', expires_at = t, used = u\<rparr>"

definition bare :: world where
  "bare = \<lparr>email_codes = [], users = [], profiles = []\<rparr>"

definition one_code :: world where
  "one_code = bare\<lparr>email_codes := [code_at 9000 False]\<rparr>"

definition one_expired :: world where
  "one_expired = bare\<lparr>email_codes := [code_at 1000 False]\<rparr>"

definition live_then_expired :: world where
  "live_then_expired = bare\<lparr>email_codes := [code_at 9000 False, code_at 1000 False]\<rparr>"


definition shelf :: world where
  "shelf =
     bare\<lparr>email_codes :=
       [code_at 9000 False, code_at 1000 False, code_at 500 True,
        \<lparr>email = ''b@example.com'', code = ''482913'', expires_at = 9000, used = False\<rparr>]\<rparr>"

definition registered :: world where
  "registered =
     one_code\<lparr>users := [\<lparr>user_id = 7, user_email = ''a@example.com'', user_password = ''x''\<rparr>]\<rparr>"

text \<open>Every provider accepts the message.\<close>

definition calm_net :: net where
  "calm_net = sample_net\<lparr>mail := (\<lambda>p. Resolved \<lparr>status = 200, text_of = Resolved ''sent''\<rparr>)\<rparr>"

text \<open>Resend answers 500 and the other providers accept the message.\<close>

definition resend_down :: net where
  "resend_down =
     sample_net\<lparr>mail := (\<lambda>p. case p of
        Resend \<Rightarrow> Resolved \<lparr>status = 500, text_of = Resolved ''boom''\<rparr>
      | SendGrid \<Rightarrow> Resolved \<lparr>status = 202, text_of = Resolved []\<rparr>
      | Mailgun \<Rightarrow> Resolved \<lparr>status = 200, text_of = Resolved ''Queued''\<rparr>)\<rparr>"

definition feedback_event :: event where
  "feedback_event =
     \<lparr>httpMethod = ''POST'',
      event_body = Fields [''to'' \<mapsto> ''owner@lhystlog.com'', ''body'' \<mapsto> ''Nice app'']\<rparr>"

section \<open>Responses\<close>

lemma stringify_eq [simp]:
  "stringify fs = stringify gs \<longleftrightarrow>
     [(k, v). (k, Some v) \<leftarrow> fs] = [(k, v). (k, Some v) \<leftarrow> gs]"
  by (simp add: stringify_def)

lemma verify_ready_unfold:
  "verify_ready ev e \<Longrightarrow>
   verify_code ev n now e w =
     check_code n now (req_email e) (req_code e) (req_password e) (req_plan e) w"
  by (auto simp: verify_ready_def verify_code_def parsable_def req_email_def req_code_def
        req_password_def req_plan_def store_configured_def Let_def split: parsed.splits)


lemma upsert_profile_frame:
  "email_codes (snd (upsert_profile n now uid pl w)) = email_codes w"
  "users (snd (upsert_profile n now uid pl w)) = users w"
  by (auto simp: upsert_profile_def POST_profiles_def Let_def split: option.splits fault.splits)

lemma upsert_profile_response:
  "fst (upsert_profile n now uid pl w) = unexpected \<or> fst (upsert_profile n now uid pl w) = success"
  by (auto simp: upsert_profile_def POST_profiles_def Let_def split: option.splits fault.splits)

lemma create_user_codes:
  "email_codes (snd (create_user n now e p pl w)) = email_codes w"
  by (auto simp: create_user_def POST_users_def upsert_profile_frame
      split: option.splits fault.splits list.splits)

lemma success_neq [simp]:
  "success \<noteq> unexpected" "success \<noteq> \<lparr>statusCode = 400, body = b\<rparr>"
  "success \<noteq> \<lparr>statusCode = 500, body = b\<rparr>" "success \<noteq> create_failed t"
  "success \<noteq> invalid_code" "success \<noteq> expired_code" "success \<noteq> method_not_allowed"
  "unexpected \<noteq> success" "\<lparr>statusCode = 400, body = b\<rparr> \<noteq> success"
  "\<lparr>statusCode = 500, body = b\<rparr> \<noteq> success" "create_failed t \<noteq> success"
  "invalid_code \<noteq> success" "expired_code \<noteq> success" "method_not_allowed \<noteq> success"
  by (simp_all add: success_def unexpected_def invalid_code_def expired_code_def
      method_not_allowed_def create_failed_def)

lemma error_body_eq [simp]: "error_body a = error_body b \<longleftrightarrow> a = b"
  by (simp add: error_body_def stringify_def)

lemma mark_used_codes:
  "email_codes (snd (mark_used n now e c p pl w)) =
     (if codes_patch n = None then map (mark_row e c) (email_codes w) else email_codes w)"
  by (auto simp: mark_used_def PATCH_codes_def create_user_codes split: option.splits fault.splits)




subsection \<open>The sample request\<close>

lemma normalised_sample: "trim (toLowerCase ''A@Example.com '') = ''a@example.com''"
  by (simp add: trim_def toLowerCase_def lower_char_def is_space_def)

lemma verify_event_fields:
  "req_email verify_event = ''a@example.com''" "req_code verify_event = ''482913''"
  "req_password verify_event = ''x''" "req_plan verify_event = ''pro''"
  by (simp_all add: req_email_def req_code_def req_password_def req_plan_def verify_event_def
      field_def trim_def toLowerCase_def lower_char_def is_space_def)

lemma verify_event_ready: "verify_ready sample_env verify_event"
  by (simp add: verify_ready_def verify_event_fields store_configured_def sample_env_def)
    (simp add: verify_event_def parsable_def)

section \<open>verify-code: expiry and the update that marks a code\<close>

text \<open>
  C10: the update that marks the code is filtered by email and code only. A verification
  that reaches it (the lookup answered, its first row is not expired, and the update is
  accepted) sets \<open>used\<close> on every row of the table under that normalised email and
  code, used or not, first in the answer or not, and changes no other row.
\<close>

theorem mark_used_is_plain_write:
  assumes "verify_ready ev e" and "codes_get n = None" and "codes_patch n = None"
    and "unused_matching (req_email e) (req_code e) w = r # rs"
    and "\<not> expires_at r < now"
  shows "email_codes (snd (verify_code ev n now e w)) =
           map (\<lambda>x. if email x = req_email e \<and> code x = req_code e then x\<lparr>used := True\<rparr> else x)
             (email_codes w)"
proof -
  have "verify_code ev n now e w =
          mark_used n now (req_email e) (req_code e) (req_password e) (req_plan e) w"
    using assms by (simp add: verify_ready_unfold check_code_def GET_codes_def)
  then show ?thesis
    using assms(3) by (simp add: mark_used_codes mark_row_def [abs_def])
qed

theorem mark_used_is_plain_write_witness:
  "verify_ready sample_env verify_event \<and> codes_get sample_net = None
   \<and> codes_patch sample_net = None
   \<and> unused_matching (req_email verify_event) (req_code verify_event) shelf =
       [code_at 9000 False, code_at 1000 False]
   \<and> \<not> expires_at (code_at 9000 False) < 5000
   \<and> email_codes (snd (verify_code sample_env sample_net 5000 verify_event shelf)) =
       [code_at 9000 True, code_at 1000 True, code_at 500 True,
        \<lparr>email = ''b@example.com'', code = ''482913'', expires_at = 9000, used = False\<rparr>]"
proof -
  have h1: "verify_ready sample_env verify_event" by (rule verify_event_ready)
  have h2: "codes_get sample_net = None" and h3: "codes_patch sample_net = None"
    by (simp_all add: sample_net_def)
  have h4: "unused_matching (req_email verify_event) (req_code verify_event) shelf =
       [code_at 9000 False, code_at 1000 False]"
    by (simp add: verify_event_fields unused_matching_def shelf_def bare_def code_at_def)
  have h5: "\<not> expires_at (code_at 9000 False) < 5000" by (simp add: code_at_def)
  from mark_used_is_plain_write [OF h1 h2 h3 h4 h5] h1 h2 h3 h4 h5 show ?thesis
    by (simp add: verify_event_fields shelf_def bare_def code_at_def)
qed

text \<open>
  C2, as stated, fails: with an unexpired row first and an expired row second under the
  same email and code, a matching unused row whose expiry has passed exists, and the
  verifier answers 200.
\<close>

theorem expired_row_behind_live_row_counterexample:
  "unused_matching (req_email verify_event) (req_code verify_event) live_then_expired =
     [code_at 9000 False, code_at 1000 False]
   \<and> expires_at (code_at 1000 False) < 5000
   \<and> fst (verify_code sample_env sample_net 5000 verify_event live_then_expired) = success"
  unfolding verify_ready_unfold [OF verify_event_ready] verify_event_fields
  by (simp add: check_code_def GET_codes_def unused_matching_def mark_used_def PATCH_codes_def
      create_user_def POST_users_def upsert_profile_def POST_profiles_def fresh_id_def Let_def
      live_then_expired_def bare_def code_at_def mark_row_def sample_net_def)

text \<open>
  C2, amended: when the first row of the lookup's answer has its expiry before now, the
  verifier answers 400 with the error for an expired code and leaves the store as it
  is; when no row matches it answers 400 with the error for an invalid code; the two
  bodies differ.
\<close>

theorem expired_distinct_from_invalid:
  assumes "verify_ready ev e" and "codes_get n = None"
  shows "(unused_matching (req_email e) (req_code e) w = [] \<longrightarrow>
            verify_code ev n now e w = (invalid_code, w))
       \<and> (\<forall>r rs. unused_matching (req_email e) (req_code e) w = r # rs \<and> expires_at r < now \<longrightarrow>
            verify_code ev n now e w = (expired_code, w))
       \<and> statusCode invalid_code = 400 \<and> statusCode expired_code = 400
       \<and> body invalid_code \<noteq> body expired_code"
  using assms
  by (auto simp: verify_ready_unfold check_code_def GET_codes_def invalid_code_def expired_code_def)


theorem expired_distinct_from_invalid_witness:
  "verify_ready sample_env verify_event \<and> codes_get sample_net = None
   \<and> unused_matching (req_email verify_event) (req_code verify_event) bare = []
   \<and> verify_code sample_env sample_net 5000 verify_event bare = (invalid_code, bare)
   \<and> unused_matching (req_email verify_event) (req_code verify_event) one_expired =
       [code_at 1000 False]
   \<and> expires_at (code_at 1000 False) < 5000
   \<and> verify_code sample_env sample_net 5000 verify_event one_expired = (expired_code, one_expired)"
proof -
  have h1: "verify_ready sample_env verify_event" by (rule verify_event_ready)
  have h2: "codes_get sample_net = None" by (simp add: sample_net_def)
  have h3: "unused_matching (req_email verify_event) (req_code verify_event) bare = []"
    by (simp add: unused_matching_def bare_def)
  have h4: "unused_matching (req_email verify_event) (req_code verify_event) one_expired =
       [code_at 1000 False]"
    by (simp add: verify_event_fields unused_matching_def one_expired_def bare_def code_at_def)
  have h5: "expires_at (code_at 1000 False) < 5000" by (simp add: code_at_def)
  from expired_distinct_from_invalid [OF h1 h2, of bare 5000] h3
  have a: "verify_code sample_env sample_net 5000 verify_event bare = (invalid_code, bare)"
    by blast
  from expired_distinct_from_invalid [OF h1 h2, of one_expired 5000] h4 h5
  have b: "verify_code sample_env sample_net 5000 verify_event one_expired =
      (expired_code, one_expired)"
    by blast
  from h1 h2 h3 h4 h5 a b show ?thesis by blast
qed




section \<open>verify-code: a verified code stays used\<close>








lemma now_unbound: "resolve (scope_001 ev em c) ''now'' = Inl ''now is not defined''"
  by (simp add: resolve_def scope_001_def)

lemma issue_001_throws: "issue_001 ev n rnd em w = (unexpected, w, [])"
  by (simp add: issue_001_def now_unbound Let_def)

lemma generate_001_world: "fst (snd (generate_code_001 ev n rnd e w)) = w"
  by (auto simp: generate_code_001_def issue_001_throws Let_def
      split: parsed.splits sum.splits fault.splits)

lemma issue_002_stored:
  "codes_post n = None \<Longrightarrow>
   issue_002 ev n now rnd em w =
     (fst (answer_002 ev n (toString rnd)), issued em rnd now w,
      snd (answer_002 ev n (toString rnd)))"
  by (simp add: issue_002_def POST_codes_def issued_def Let_def)

lemma issue_002_not_stored:
  "codes_post n \<noteq> None \<Longrightarrow>
   fst (snd (issue_002 ev n now rnd em w)) = w \<and> snd (snd (issue_002 ev n now rnd em w)) = []
   \<and> statusCode (fst (issue_002 ev n now rnd em w)) = 500"
  by (auto simp: issue_002_def POST_codes_def Let_def unexpected_def split: fault.splits)

lemma generate_002_unfold:
  assumes "issue_ready ev e" and "users_get n = None" and "\<not> has_account (req_email e) w"
  shows "generate_code_002 ev n now rnd e w = cooldown ev n now rnd (req_email e) w"
  using assms
  by (auto simp: generate_code_002_def issue_ready_def parsable_def req_email_def
      store_configured_def has_account_def GET_users_def Let_def split: parsed.splits)

lemma generate_002_early:
  assumes "\<not> (issue_ready ev e \<and> users_get n = None \<and> \<not> has_account (req_email e) w)"
  shows "fst (snd (generate_code_002 ev n now rnd e w)) = w
         \<and> snd (snd (generate_code_002 ev n now rnd e w)) = []
         \<and> statusCode (fst (generate_code_002 ev n now rnd e w)) \<noteq> 200"
  using assms
  by (auto simp: generate_code_002_def issue_ready_def parsable_def req_email_def
      store_configured_def has_account_def GET_users_def Let_def method_not_allowed_def
      unexpected_def already_registered_def split: parsed.splits option.splits fault.splits)

lemma cooldown_outcome:
  "cooldown ev n now rnd em w =
     (fst (answer_002 ev n (toString rnd)), issued em rnd now w,
      snd (answer_002 ev n (toString rnd)))
   \<or> (fst (snd (cooldown ev n now rnd em w)) = w \<and> snd (snd (cooldown ev n now rnd em w)) = []
       \<and> statusCode (fst (cooldown ev n now rnd em w)) \<noteq> 200)"
proof (cases "GET_unused n em w")
  case (Inl f)
  then show ?thesis by (cases f) (simp_all add: cooldown_def unexpected_def)
next
  case (Inr existingCodes)
  show ?thesis
  proof (cases "list_ex (\<lambda>row. \<not> used row \<and> expires_at row > now) existingCodes")
    case True
    with Inr show ?thesis by (simp add: cooldown_def already_sent_def)
  next
    case False
    with Inr have c: "cooldown ev n now rnd em w = issue_002 ev n now rnd em w"
      by (simp add: cooldown_def)
    show ?thesis
    proof (cases "codes_post n = None")
      case True
      then show ?thesis unfolding c by (simp add: issue_002_stored)
    next
      case False
      then show ?thesis unfolding c using issue_002_not_stored [of n ev now rnd em w] by simp
    qed
  qed
qed

lemma generate_002_outcome:
  "(\<not> has_account (req_email e) w \<and>
    generate_code_002 ev n now rnd e w =
      (fst (answer_002 ev n (toString rnd)), issued (req_email e) rnd now w,
       snd (answer_002 ev n (toString rnd))))
   \<or> (fst (snd (generate_code_002 ev n now rnd e w)) = w
       \<and> snd (snd (generate_code_002 ev n now rnd e w)) = []
       \<and> statusCode (fst (generate_code_002 ev n now rnd e w)) \<noteq> 200)"
proof (cases "issue_ready ev e \<and> users_get n = None \<and> \<not> has_account (req_email e) w")
  case True
  then have "generate_code_002 ev n now rnd e w = cooldown ev n now rnd (req_email e) w"
    by (simp add: generate_002_unfold)
  with True cooldown_outcome [of ev n now rnd "req_email e" w] show ?thesis by auto
next
  case False
  then show ?thesis using generate_002_early [of ev e n w now rnd] by blast
qed













section \<open>generate-code: existing accounts, and the variant without the cooldown\<close>

lemma generate_001_unfold:
  assumes "issue_ready ev e" and "users_get n = None" and "\<not> has_account (req_email e) w"
  shows "generate_code_001 ev n rnd e w = issue_001 ev n rnd (req_email e) w"
  using assms
  by (auto simp: generate_code_001_def issue_ready_def parsable_def req_email_def
      store_configured_def has_account_def GET_users_def Let_def split: parsed.splits)

lemma generate_001_duplicate:
  assumes "has_account (req_email e) w"
  shows "fst (snd (generate_code_001 ev n rnd e w)) = w
       \<and> (issue_ready ev e \<and> users_get n = None \<longrightarrow>
            fst (generate_code_001 ev n rnd e w) = already_registered)"
  using assms
  by (auto simp: generate_code_001_def issue_ready_def parsable_def req_email_def
      store_configured_def has_account_def GET_users_def Let_def
      split: parsed.splits option.splits fault.splits)

lemma generate_002_duplicate:
  assumes "has_account (req_email e) w"
  shows "fst (snd (generate_code_002 ev n now rnd e w)) = w
       \<and> (issue_ready ev e \<and> users_get n = None \<longrightarrow>
            fst (generate_code_002 ev n now rnd e w) = already_registered)"
  using assms
  by (auto simp: generate_code_002_def issue_ready_def parsable_def req_email_def
      store_configured_def has_account_def GET_users_def Let_def
      split: parsed.splits option.splits fault.splits)

lemma generate_001_status: "statusCode (fst (generate_code_001 ev n rnd e w)) \<noteq> 200"
  by (auto simp: generate_code_001_def issue_001_throws Let_def method_not_allowed_def
      unexpected_def already_registered_def split: parsed.splits sum.splits fault.splits)

lemma generate_001_no_mail: "snd (snd (generate_code_001 ev n rnd e w)) = []"
  by (auto simp: generate_code_001_def issue_001_throws Let_def
      split: parsed.splits sum.splits fault.splits)

lemma issue_event_fields: "req_email issue_event = ''a@example.com''"
  by (simp add: req_email_def issue_event_def field_def trim_def toLowerCase_def lower_char_def
      is_space_def)

lemma issue_event_ready: "issue_ready sample_env issue_event"
  by (simp add: issue_ready_def issue_event_fields store_configured_def sample_env_def)
    (simp add: issue_event_def parsable_def)

text \<open>
  C8: when the normalised email of an issuance request has an account, neither variant
  of the issuer changes the store; a request that gets as far as the account lookup,
  with the lookup answered, is answered 400 with the error for a registered email.
\<close>

theorem duplicate_account_is_rejected:
  assumes "has_account (req_email e) w"
  shows "fst (snd (generate_code_002 ev n now rnd e w)) = w
       \<and> fst (snd (generate_code_001 ev n rnd e w)) = w
       \<and> (issue_ready ev e \<and> users_get n = None \<longrightarrow>
            fst (generate_code_002 ev n now rnd e w) = already_registered
            \<and> fst (generate_code_001 ev n rnd e w) = already_registered)
       \<and> statusCode already_registered = 400"
  using generate_001_duplicate [OF assms, of ev n rnd] generate_002_duplicate [OF assms, of ev n now rnd]
  by (simp add: already_registered_def)

theorem duplicate_account_is_rejected_witness:
  "has_account (req_email issue_event) registered
   \<and> issue_ready sample_env issue_event \<and> users_get sample_net = None
   \<and> generate_code_002 sample_env sample_net 5000 482913 issue_event registered =
       (already_registered, registered, [])
   \<and> fst (generate_code_001 sample_env sample_net 482913 issue_event registered) =
       already_registered"
proof -
  have h1: "has_account (req_email issue_event) registered"
    by (simp add: issue_event_fields has_account_def registered_def one_code_def bare_def)
  have h2: "issue_ready sample_env issue_event \<and> users_get sample_net = None"
    by (simp add: issue_event_ready sample_net_def)
  from generate_002_outcome [of issue_event registered sample_env sample_net 5000 482913] h1
  have "snd (snd (generate_code_002 sample_env sample_net 5000 482913 issue_event registered)) = []"
    by blast
  with duplicate_account_is_rejected [OF h1, of sample_env sample_net 5000 482913] h1 h2
  show ?thesis by (auto simp: prod_eq_iff)
qed

text \<open>
  C9: in the variant of \<^verbatim>\<open>part_001\<close> the name \<^verbatim>\<open>now\<close> has no binding, so reading it
  throws. Every request that passes validation and configuration and finds no account
  is answered 500 with the error of the handler's \<^verbatim>\<open>catch\<close>, with nothing stored and no
  email sent; no request at all is answered 200, and the store is never changed.
\<close>

theorem now_is_not_defined:
  "resolve (scope_001 ev (req_email e) (toString rnd)) ''now'' = Inl ''now is not defined''
   \<and> (issue_ready ev e \<and> users_get n = None \<and> \<not> has_account (req_email e) w \<longrightarrow>
        generate_code_001 ev n rnd e w = (unexpected, w, []))
   \<and> statusCode unexpected = 500
   \<and> body unexpected = error_body ''An unexpected error occurred''
   \<and> statusCode (fst (generate_code_001 ev n rnd e w)) \<noteq> 200
   \<and> fst (snd (generate_code_001 ev n rnd e w)) = w"
  by (simp add: now_unbound generate_001_unfold issue_001_throws generate_001_status
      generate_001_world unexpected_def)

theorem now_is_not_defined_witness:
  "issue_ready sample_env issue_event \<and> users_get sample_net = None
   \<and> \<not> has_account (req_email issue_event) bare
   \<and> generate_code_001 sample_env sample_net 482913 issue_event bare = (unexpected, bare, [])"
proof -
  have h: "issue_ready sample_env issue_event \<and> users_get sample_net = None
      \<and> \<not> has_account (req_email issue_event) bare"
    by (simp add: issue_event_ready sample_net_def has_account_def bare_def)
  with now_is_not_defined [of sample_env issue_event 482913 sample_net bare] show ?thesis
    by blast
qed

text \<open>
  C5: a request for an email without an account, while an unused and unexpired code
  exists for it. The variant without the cooldown stores nothing and answers 500; the
  variant with the cooldown stores nothing and answers 400.
\<close>

theorem no_cooldown_and_no_code:
  "\<not> has_account (req_email issue_event) one_code
   \<and> issue_ready sample_env issue_event
   \<and> generate_code_001 sample_env sample_net 482913 issue_event one_code =
       (unexpected, one_code, [])
   \<and> generate_code_002 sample_env sample_net 5000 482913 issue_event one_code =
       (already_sent, one_code, [])"
proof -
  have h: "\<not> has_account (req_email issue_event) one_code"
    by (simp add: has_account_def one_code_def bare_def)
  have r: "issue_ready sample_env issue_event" and u: "users_get sample_net = None"
    by (simp_all add: issue_event_ready sample_net_def)
  have a: "generate_code_001 sample_env sample_net 482913 issue_event one_code =
       (unexpected, one_code, [])"
    unfolding generate_001_unfold [OF r u h]
    by (simp add: issue_001_def resolve_def scope_001_def Let_def)
  have b: "generate_code_002 sample_env sample_net 5000 482913 issue_event one_code =
       (already_sent, one_code, [])"
    unfolding generate_002_unfold [OF r u h]
    by (simp add: issue_event_fields cooldown_def GET_unused_def
        sample_net_def one_code_def bare_def code_at_def)
  from h r a b show ?thesis by blast
qed

section \<open>Sending the code: the order of the attempts and the note\<close>

lemma send_via_answered:
  assumes "answers n p"
  shows "attempted (send_via p n d) = attempted d @ [p]"
    and "thrown (send_via p n d) = thrown d"
    and "emailSent (send_via p n d) = (emailSent d \<or> succeeds n p)"
    and "note_msg (send_via p n d) =
           (if succeeds n p then note_msg d else add_note (note_msg d) (failure_reason n p))"
  using assms
  by (auto simp: send_via_def succeeds_def answers_def failure_reason_def Let_def
      split: awaited.splits)

lemma failure_reason_nonempty: "answers n p \<Longrightarrow> failure_reason n p \<noteq> []"
  by (cases p) (auto simp: answers_def failure_reason_def provider_name_def split: awaited.splits)

lemma send_code_as_fold:
  "FROM_EMAIL ev \<noteq> [] \<Longrightarrow>
   send_code ev n =
     (let d = fold (attempt_next ev n) [Resend, SendGrid, Mailgun]
                \<lparr>note_msg = None, emailSent = False, attempted = [], thrown = None\<rparr>
      in if thrown d = None \<and> \<not> emailSent d \<and> \<not> truthy (note_msg d)
         then d\<lparr>note_msg := Some no_provider_note\<rparr> else d)"
  by (simp add: send_code_def attempt_next_def configured_def sendViaResend_def
      sendViaSendGrid_def sendViaMailgun_def no_provider_note_def Let_def
      split del: if_split cong: if_cong)

lemma joined_shift: "joined ((a @ '' | '' @ m) # ms) = a @ '' | '' @ joined (m # ms)"
  by (cases ms) simp_all

lemma fold_add_note:
  "a \<noteq> [] \<Longrightarrow> fold (\<lambda>m nt. add_note nt m) ms (Some a) = Some (joined (a # ms))"
proof (induction ms arbitrary: a)
  case Nil
  show ?case by simp
next
  case (Cons m ms)
  have "fold (\<lambda>m nt. add_note nt m) (m # ms) (Some a) =
        fold (\<lambda>m nt. add_note nt m) ms (Some (a @ '' | '' @ m))"
    using Cons.prems by (simp add: add_note_def)
  also have "\<dots> = Some (joined ((a @ '' | '' @ m) # ms))"
    by (rule Cons.IH) simp
  finally show ?case by (cases ms) simp_all
qed

lemma fold_attempts:
  assumes "\<forall>p \<in> set (filter (configured ev) ps). answers n p" and "thrown d = None"
  shows "thrown (fold (attempt_next ev n) ps d) = None
       \<and> attempted (fold (attempt_next ev n) ps d) =
           attempted d @ (if emailSent d then [] else until_success n (filter (configured ev) ps))
       \<and> emailSent (fold (attempt_next ev n) ps d) =
           (emailSent d \<or> list_ex (succeeds n) (filter (configured ev) ps))
       \<and> note_msg (fold (attempt_next ev n) ps d) =
           fold (\<lambda>m nt. add_note nt m)
             (map (failure_reason n)
               (filter (\<lambda>p. \<not> succeeds n p)
                 (if emailSent d then [] else until_success n (filter (configured ev) ps))))
             (note_msg d)"
  using assms
proof (induction ps arbitrary: d)
  case Nil
  then show ?case by simp
next
  case (Cons p ps)
  let ?d = "attempt_next ev n p d"
  have rest: "\<forall>q \<in> set (filter (configured ev) ps). answers n q"
    using Cons.prems(1) by simp
  show ?case
  proof (cases "\<not> emailSent d \<and> configured ev p")
    case False
    then have d: "?d = d" by (auto simp: attempt_next_def)
    from Cons.IH [OF rest Cons.prems(2)] False show ?thesis
      by (auto simp: d)
  next
    case True
    then have a: "answers n p" using Cons.prems(1) by simp
    from True Cons.prems(2) have d: "?d = send_via p n d" by (simp add: attempt_next_def)
    have t: "thrown ?d = None" by (simp add: d send_via_answered [OF a] Cons.prems(2))
    from Cons.IH [OF rest t] True show ?thesis
      by (simp add: d send_via_answered [OF a])
  qed
qed

lemma until_success_subset: "set (until_success n ps) \<subseteq> set ps"
  by (induction ps) auto


lemma joined_nonempty: "m \<noteq> [] \<Longrightarrow> joined (m # ms) \<noteq> []"
  by (cases ms) simp_all


lemma fold_add_note_None:
  assumes "\<forall>m \<in> set ms. m \<noteq> []"
  shows "fold (\<lambda>m nt. add_note nt m) ms None = (if ms = [] then None else Some (joined ms))"
proof (cases ms)
  case Nil
  then show ?thesis by simp
next
  case (Cons m ms')
  with assms have "m \<noteq> []" by simp
  then have "fold (\<lambda>m nt. add_note nt m) ms' (Some m) = Some (joined (m # ms'))"
    by (rule fold_add_note)
  with Cons show ?thesis by (simp add: add_note_def)
qed

lemma send_code_answered:
  assumes "\<forall>p \<in> set (configured_providers ev). answers n p" and "FROM_EMAIL ev \<noteq> []"
  shows "thrown (send_code ev n) = None"
    and "attempted (send_code ev n) = until_success n (configured_providers ev)"
    and "emailSent (send_code ev n) = list_ex (succeeds n) (configured_providers ev)"
    and "note_msg (send_code ev n) =
           (if failed_attempts ev n \<noteq> [] then
              Some (joined (map (failure_reason n) (failed_attempts ev n)))
            else if list_ex (succeeds n) (configured_providers ev) then None
            else Some no_provider_note)"
proof -
  let ?init = "\<lparr>note_msg = None, emailSent = False, attempted = [], thrown = None\<rparr>"
  let ?fin = "fold (attempt_next ev n) [Resend, SendGrid, Mailgun] ?init"
  have c: "filter (configured ev) [Resend, SendGrid, Mailgun] = configured_providers ev"
    by (simp add: configured_providers_def)
  have a: "\<forall>p \<in> set (filter (configured ev) [Resend, SendGrid, Mailgun]). answers n p"
    using assms(1) unfolding c .
  have t0: "thrown ?init = None" by simp
  have i: "issuer_providers ev = configured_providers ev"
    using assms(2) by (simp add: issuer_providers_def)
  note f = fold_attempts [OF a t0, unfolded c]
  have th: "thrown ?fin = None" and at: "attempted ?fin = until_success n (configured_providers ev)"
    and es: "emailSent ?fin = list_ex (succeeds n) (configured_providers ev)"
    and nm: "note_msg ?fin =
       fold (\<lambda>m nt. add_note nt m) (map (failure_reason n) (failed_attempts ev n)) None"
    using f by (simp_all add: failed_attempts_def i)
  have "\<forall>p \<in> set (failed_attempts ev n). answers n p"
    using assms(1) until_success_subset [of n "configured_providers ev"]
    by (auto simp: failed_attempts_def i)
  then have ne: "\<forall>m \<in> set (map (failure_reason n) (failed_attempts ev n)). m \<noteq> []"
    by (auto simp: failure_reason_nonempty)
  have nm': "note_msg ?fin =
      (if failed_attempts ev n = [] then None
       else Some (joined (map (failure_reason n) (failed_attempts ev n))))"
    unfolding nm fold_add_note_None [OF ne] by simp
  have tr: "truthy (note_msg ?fin) = (failed_attempts ev n \<noteq> [])"
  proof (cases "failed_attempts ev n")
    case Nil
    then show ?thesis unfolding nm' by (simp add: truthy_def)
  next
    case (Cons p ps)
    with ne have "failure_reason n p \<noteq> []" by simp
    then have "joined (failure_reason n p # map (failure_reason n) ps) \<noteq> []"
      by (rule joined_nonempty)
    with Cons show ?thesis unfolding nm' by (simp add: truthy_def)
  qed
  have s: "send_code ev n =
      (if \<not> emailSent ?fin \<and> \<not> truthy (note_msg ?fin) then ?fin\<lparr>note_msg := Some no_provider_note\<rparr>
       else ?fin)"
    unfolding send_code_as_fold [OF assms(2), of n] Let_def using th by (simp del: fold.simps)
  show "thrown (send_code ev n) = None" unfolding s using th by (simp del: fold.simps)
  show "attempted (send_code ev n) = until_success n (configured_providers ev)"
    unfolding s using at by (simp del: fold.simps)
  show "emailSent (send_code ev n) = list_ex (succeeds n) (configured_providers ev)"
    unfolding s using es by (simp del: fold.simps)
  show "note_msg (send_code ev n) =
           (if failed_attempts ev n \<noteq> [] then
              Some (joined (map (failure_reason n) (failed_attempts ev n)))
            else if list_ex (succeeds n) (configured_providers ev) then None
            else Some no_provider_note)"
    unfolding s using es tr nm' by (simp del: fold.simps)
qed


lemma send_code_usable:
  assumes "\<forall>p \<in> set (issuer_providers ev). answers n p"
  shows "thrown (send_code ev n) = None"
    and "attempted (send_code ev n) = until_success n (issuer_providers ev)"
    and "emailSent (send_code ev n) = list_ex (succeeds n) (issuer_providers ev)"
    and "failed_attempts ev n \<noteq> [] \<Longrightarrow>
         note_msg (send_code ev n) = Some (joined (map (failure_reason n) (failed_attempts ev n)))"
proof -
  have "thrown (send_code ev n) = None
      \<and> attempted (send_code ev n) = until_success n (issuer_providers ev)
      \<and> emailSent (send_code ev n) = list_ex (succeeds n) (issuer_providers ev)
      \<and> (failed_attempts ev n \<noteq> [] \<longrightarrow>
           note_msg (send_code ev n) =
             Some (joined (map (failure_reason n) (failed_attempts ev n))))"
  proof (cases "FROM_EMAIL ev = []")
    case True
    then show ?thesis
      by (simp add: send_code_def issuer_providers_def failed_attempts_def)
  next
    case False
    then have i: "issuer_providers ev = configured_providers ev"
      by (simp add: issuer_providers_def)
    from assms have a: "\<forall>p \<in> set (configured_providers ev). answers n p"
      unfolding i .
    from send_code_answered [OF a False] show ?thesis
      by (simp add: i)
  qed
  then show "thrown (send_code ev n) = None"
    and "attempted (send_code ev n) = until_success n (issuer_providers ev)"
    and "emailSent (send_code ev n) = list_ex (succeeds n) (issuer_providers ev)"
    and "failed_attempts ev n \<noteq> [] \<Longrightarrow>
         note_msg (send_code ev n) = Some (joined (map (failure_reason n) (failed_attempts ev n)))"
    by blast+
qed





lemma configured_providers_eq:
  "configured_providers ev =
     (if RESEND_API_KEY ev \<noteq> [] then [Resend] else []) @
     (if SENDGRID_API_KEY ev \<noteq> [] then [SendGrid] else []) @
     (if MAILGUN_API_KEY ev \<noteq> [] \<and> MAILGUN_DOMAIN ev \<noteq> [] then [Mailgun] else [])"
  by (simp add: configured_providers_def configured_def)

lemma feedback_unfold:
  "feedback_ready e \<Longrightarrow>
   feedback ev n e =
     (case configured_providers ev of
        [] \<Rightarrow> (\<lparr>statusCode = 500,
                 body = Text (''No email provider configured. Set RESEND_API_KEY or '' @
                              ''SENDGRID_API_KEY or MAILGUN_API_KEY env var in Netlify.'')\<rparr>, [])
      | p # ps \<Rightarrow> relay_via p n)"
  by (auto simp: feedback_ready_def feedback_def configured_providers_eq Let_def
      split: parsed.splits)

lemma relay_via_outcome:
  "snd (relay_via p n) = [p]"
  "statusCode (fst (relay_via p n)) = (if succeeds n p then 200 else 500)"
  by (auto simp: relay_via_def succeeds_def server_error_def split: awaited.splits)

subsection \<open>The sample issuance\<close>

lemma sample_code: "toString 482913 = ''482913''"
  by (simp add: toString.simps digit_def)

lemma sample_issue_stored:
  assumes "issue_ready ev issue_event" and "users_get n = None" and "codes_get n = None"
    and "codes_post n = None"
  shows "generate_code_002 ev n 5000 482913 issue_event bare =
     (fst (answer_002 ev n ''482913''), issued ''a@example.com'' 482913 5000 bare,
      snd (answer_002 ev n ''482913''))"
proof -
  have h: "\<not> has_account (req_email issue_event) bare"
    by (simp add: has_account_def bare_def)
  have "cooldown ev n 5000 482913 ''a@example.com'' bare = issue_002 ev n 5000 482913 ''a@example.com'' bare"
    using assms(3) by (simp add: cooldown_def GET_unused_def bare_def)
  then show ?thesis
    unfolding generate_002_unfold [OF assms(1,2) h] issue_event_fields
    by (simp add: issue_002_stored [OF assms(4)] sample_code)
qed

lemma sample_providers:
  "issuer_providers sample_env = [Resend, SendGrid]"
  "configured_providers sample_env = [Resend, SendGrid]"
  "issuer_providers no_mail_env = []"
  by (simp_all add: issuer_providers_def configured_providers_eq sample_env_def no_mail_env_def)


section \<open>generate-code: the answer after the code is stored\<close>




text \<open>
  C6, as stated, fails: the body of a 200 answer has the key \<open>code\<close> with the
  generated code next to \<open>success\<close>.
\<close>

theorem success_body_counterexample:
  "statusCode (fst (generate_code_002 sample_env calm_net 5000 482913 issue_event bare)) = 200
   \<and> body (fst (generate_code_002 sample_env calm_net 5000 482913 issue_event bare)) =
       Json [(''success'', JBool True), (''code'', JString ''482913'')]
   \<and> email_codes (fst (snd (generate_code_002 sample_env calm_net 5000 482913 issue_event bare))) =
       [\<lparr>email = ''a@example.com'', code = ''482913'', expires_at = 3605000, used = False\<rparr>]"
proof -
  have n: "users_get calm_net = None" "codes_get calm_net = None" "codes_post calm_net = None"
    by (simp_all add: calm_net_def sample_net_def)
  have "answer_002 sample_env calm_net ''482913'' =
      (\<lparr>statusCode = 200,
        body = Json [(''success'', JBool True), (''code'', JString ''482913'')]\<rparr>, [Resend])"
    by (simp add: answer_002_def send_code_def sendViaResend_def send_via_def ok_def Let_def
        stringify_def sample_env_def calm_net_def sample_net_def)
  then show ?thesis
    unfolding sample_issue_stored [OF issue_event_ready n]
    by (simp add: issued_def bare_def sample_code)
qed

text \<open>
  C6, amended: the body of every 200 answer of the issuer is \<open>success\<close>, the
  generated code under \<open>code\<close>, and the note when there is one, and nothing else;
  the code in the body is the code of the row that was stored.
\<close>

theorem success_body_discloses_code:
  assumes "statusCode (fst (generate_code_002 ev n now rnd e w)) = 200"
  shows "body (fst (generate_code_002 ev n now rnd e w)) =
           Json ([(''success'', JBool True), (''code'', JString (toString rnd))] @
                 (case note_msg (send_code ev n) of
                    None \<Rightarrow> []
                  | Some t \<Rightarrow> [(''note'', JString t)]))
         \<and> fst (snd (generate_code_002 ev n now rnd e w)) = issued (req_email e) rnd now w
         \<and> code (last (email_codes (issued (req_email e) rnd now w))) = toString rnd"
proof -
  from generate_002_outcome [of e w ev n now rnd] assms
  have g: "generate_code_002 ev n now rnd e w =
      (fst (answer_002 ev n (toString rnd)), issued (req_email e) rnd now w,
       snd (answer_002 ev n (toString rnd)))"
    by blast
  with assms have "statusCode (fst (answer_002 ev n (toString rnd))) = 200" by simp
  then have "thrown (send_code ev n) = None"
    by (auto simp: answer_002_def Let_def unexpected_def split: if_splits)
  then have "body (fst (answer_002 ev n (toString rnd))) =
           Json ([(''success'', JBool True), (''code'', JString (toString rnd))] @
                 (case note_msg (send_code ev n) of
                    None \<Rightarrow> []
                  | Some t \<Rightarrow> [(''note'', JString t)]))"
    by (simp add: answer_002_def Let_def stringify_def split: option.splits)
  with g show ?thesis by (simp add: issued_def)
qed

theorem success_body_discloses_code_witness:
  "statusCode (fst (generate_code_002 sample_env sample_net 5000 482913 issue_event bare)) = 200
   \<and> body (fst (generate_code_002 sample_env sample_net 5000 482913 issue_event bare)) =
       Json [(''success'', JBool True), (''code'', JString ''482913''),
             (''note'', JString ''Resend error: boom | SendGrid error: boom'')]"
proof -
  have n: "users_get sample_net = None" "codes_get sample_net = None" "codes_post sample_net = None"
    by (simp_all add: sample_net_def)
  have s: "send_code sample_env sample_net =
      \<lparr>note_msg = Some ''Resend error: boom | SendGrid error: boom'', emailSent = False,
       attempted = [Resend, SendGrid], thrown = None\<rparr>"
    by (simp add: send_code_def sendViaResend_def sendViaSendGrid_def send_via_def ok_def Let_def
        add_note_def provider_name_def truthy_def sample_env_def sample_net_def)
  have h: "statusCode (fst (generate_code_002 sample_env sample_net 5000 482913 issue_event bare)) = 200"
    unfolding sample_issue_stored [OF issue_event_ready n]
    by (simp add: answer_002_def s)
  from success_body_discloses_code [OF h] h show ?thesis
    by (simp add: s sample_code)
qed

section \<open>The order of the providers in the issuer and in the feedback relay\<close>

text \<open>
  C7, as stated, fails for the feedback relay: with Resend and SendGrid configured and
  Resend answering 500, the relay answers 500 with the error of Resend and has not
  called SendGrid, which would have accepted the message.
\<close>

theorem feedback_fallback_counterexample:
  "configured sample_env Resend \<and> configured sample_env SendGrid
   \<and> \<not> succeeds resend_down Resend \<and> succeeds resend_down SendGrid
   \<and> feedback sample_env resend_down feedback_event =
       (\<lparr>statusCode = 500, body = Text ''Resend error: boom''\<rparr>, [Resend])"
  by (simp add: feedback_def relay_via_def configured_def succeeds_def ok_def field_def Let_def
      provider_name_def sample_env_def resend_down_def sample_net_def feedback_event_def)

text \<open>
  C7, amended: the issuer (\<^verbatim>\<open>part_002\<close>) can use the providers whose credentials are
  set, and none unless \<^verbatim>\<open>FROM_EMAIL\<close> is set. When each of them answers, the issuer
  tries them in the order Resend, SendGrid, Mailgun until one reports success, and the
  note holds the reasons of the failed attempts in that order. The feedback relay calls
  the first configured provider in that order only, and answers 200 or 500 as that
  provider succeeds or not.
\<close>

theorem fallback_in_the_issuer_only:
  assumes "\<forall>p \<in> set (issuer_providers ev). answers n p"
  shows "attempted (send_code ev n) = until_success n (issuer_providers ev)
       \<and> emailSent (send_code ev n) = list_ex (succeeds n) (issuer_providers ev)
       \<and> (failed_attempts ev n \<noteq> [] \<longrightarrow>
            note_msg (send_code ev n) =
              Some (joined (map (failure_reason n) (failed_attempts ev n))))
       \<and> (feedback_ready e \<longrightarrow>
            snd (feedback ev n e) = take 1 (configured_providers ev)
            \<and> statusCode (fst (feedback ev n e)) =
                (if list_ex (succeeds n) (take 1 (configured_providers ev)) then 200 else 500))"
proof -
  have 1: "attempted (send_code ev n) = until_success n (issuer_providers ev)
       \<and> emailSent (send_code ev n) = list_ex (succeeds n) (issuer_providers ev)
       \<and> (failed_attempts ev n \<noteq> [] \<longrightarrow>
            note_msg (send_code ev n) =
              Some (joined (map (failure_reason n) (failed_attempts ev n))))"
    using send_code_usable [OF assms] by simp
  have 2: "feedback_ready e \<longrightarrow>
            snd (feedback ev n e) = take 1 (configured_providers ev)
            \<and> statusCode (fst (feedback ev n e)) =
                (if list_ex (succeeds n) (take 1 (configured_providers ev)) then 200 else 500)"
    by (cases "configured_providers ev") (simp_all add: feedback_unfold relay_via_outcome)
  from 1 2 show ?thesis by blast
qed

theorem fallback_in_the_issuer_only_witness:
  "issuer_providers sample_env = [Resend, SendGrid]
   \<and> answers resend_down Resend \<and> answers resend_down SendGrid
   \<and> feedback_ready feedback_event
   \<and> attempted (send_code sample_env resend_down) = [Resend, SendGrid]
   \<and> emailSent (send_code sample_env resend_down)
   \<and> note_msg (send_code sample_env resend_down) = Some ''Resend error: boom''
   \<and> snd (feedback sample_env resend_down feedback_event) = [Resend]
   \<and> statusCode (fst (feedback sample_env resend_down feedback_event)) = 500
   \<and> issuer_providers no_sender_env = []
   \<and> configured_providers no_sender_env = [Resend, SendGrid]
   \<and> attempted (send_code no_sender_env resend_down) = []"
proof -
  have h: "\<forall>p \<in> set (issuer_providers sample_env). answers resend_down p"
    by (simp add: sample_providers answers_def resend_down_def)
  have r: "feedback_ready feedback_event"
    by (simp add: feedback_ready_def feedback_event_def field_def)
  have s: "\<not> succeeds resend_down Resend" "succeeds resend_down SendGrid"
    by (simp_all add: succeeds_def resend_down_def ok_def)
  have fr: "failure_reason resend_down Resend = ''Resend error: boom''"
    by (simp add: failure_reason_def resend_down_def provider_name_def)
  have a: "answers resend_down Resend \<and> answers resend_down SendGrid"
    by (simp add: answers_def resend_down_def)
  have i: "issuer_providers no_sender_env = []"
    and c: "configured_providers no_sender_env = [Resend, SendGrid]"
    by (simp_all add: issuer_providers_def configured_providers_eq no_sender_env_def
        sample_env_def)
  have g: "\<forall>p \<in> set (issuer_providers no_sender_env). answers resend_down p"
    by (simp add: i)
  from fallback_in_the_issuer_only [OF h, of feedback_event]
    fallback_in_the_issuer_only [OF g, of feedback_event] a r i c
  show ?thesis
    by (simp add: sample_providers s fr failed_attempts_def)
qed

section \<open>Two sample verifications\<close>





section \<open>verify-code: redeeming a code again\<close>




end
